theory Spec2Isabelle
  imports Complex_Main
begin

section \<open>Python values\<close>

text \<open>
  The handler of \<^verbatim>\<open>src/app/main.py\<close> moves Python objects between a JSON request, three
  service clients and a JSON response, and \<^verbatim>\<open>prepare_data_for_json\<close> dispatches on their
  run-time type. The values are modelled by one datatype: a constructor for every type the
  code tests for, and for the objects that reach its last line the built-in scalars, the
  tuple and the NumPy boolean \<^verbatim>\<open>np.bool_\<close>, which is neither an \<^verbatim>\<open>np.floating\<close> nor an
  \<^verbatim>\<open>np.integer\<close>.

  A NumPy float carries its kind, since \<^verbatim>\<open>np.float64\<close> alone is a subclass of Python's
  \<^verbatim>\<open>float\<close>, and the number \<^verbatim>\<open>float(data)\<close> returns. A float is the real number it
  denotes. A NumPy array is a scalar item for dimension zero and a list of sub-arrays along
  the first axis otherwise; an item is a float, an integer or a boolean for the numeric
  dtypes, and any Python object for the dtype \<^verbatim>\<open>object\<close>. Neither a common dtype nor a
  rectangular shape is enforced, since nothing below depends on them. A dictionary is the
  list of its items in insertion order, with string keys as in a JSON object. Sets and
  instances of other classes, which the normalisation returns as they are like a tuple, are
  not modelled.
\<close>

datatype float_kind = Float16 | Float32 | Float64 | LongDouble

datatype pyval =
    PyNone
  | PyBool bool
  | PyInt int
  | PyFloat real
  | PyStr string
  | PyList "pyval list"
  | PyTuple "pyval list"
  | PyDict "(string \<times> pyval) list"
  | NpFloating float_kind real
  | NpInteger int
  | NpBool bool
  | NpArray ndarray
and ndarray =
    NdFloat real
  | NdInt int
  | NdBool bool
  | NdObject pyval
  | NdAxis "ndarray list"

text \<open>
  Exceptions: those the handler's own expressions and \<^verbatim>\<open>jsonify\<close> can raise, and whatever
  a client raises.
\<close>

datatype exn =
    AttributeError
  | ValueError
  | TypeError
  | ServiceError string

text \<open>\<^verbatim>\<open>d.get(k, default)\<close> on the items of a dictionary.\<close>

definition dict_get :: "(string \<times> pyval) list \<Rightarrow> string \<Rightarrow> pyval \<Rightarrow> pyval" where
  "dict_get kvs k dflt = (case map_of kvs k of Some v \<Rightarrow> v | None \<Rightarrow> dflt)"

text \<open>
  The truth value Python gives an object in \<^verbatim>\<open>if not x\<close>. For a NumPy array it is that of
  its only item, and \<^verbatim>\<open>ValueError\<close> when the array has several items (an empty array
  raises from NumPy 2.2 on and was falsy with a deprecation warning before).
\<close>

fun truthy :: "pyval \<Rightarrow> exn + bool"
  and truth_values :: "ndarray \<Rightarrow> (exn + bool) list" where
  "truthy PyNone = Inr False"
| "truthy (PyBool b) = Inr b"
| "truthy (PyInt i) = Inr (i \<noteq> 0)"
| "truthy (PyFloat r) = Inr (r \<noteq> 0)"
| "truthy (PyStr s) = Inr (s \<noteq> [])"
| "truthy (PyList xs) = Inr (xs \<noteq> [])"
| "truthy (PyTuple xs) = Inr (xs \<noteq> [])"
| "truthy (PyDict kvs) = Inr (kvs \<noteq> [])"
| "truthy (NpFloating w r) = Inr (r \<noteq> 0)"
| "truthy (NpInteger i) = Inr (i \<noteq> 0)"
| "truthy (NpBool b) = Inr b"
| "truthy (NpArray a) = (case truth_values a of [b] \<Rightarrow> b | _ \<Rightarrow> Inl ValueError)"
| "truth_values (NdFloat r) = [Inr (r \<noteq> 0)]"
| "truth_values (NdInt i) = [Inr (i \<noteq> 0)]"
| "truth_values (NdBool b) = [Inr b]"
| "truth_values (NdObject v) = [truthy v]"
| "truth_values (NdAxis xs) = concat (map truth_values xs)"

section \<open>Numeric normalisation\<close>

text \<open>
  \<^verbatim>\<open>ndarray.tolist()\<close>: nested lists, a bare item for dimension zero. An item of a numeric
  dtype becomes the built-in scalar of the same value; an item of an object array is handed
  over as it is stored.
\<close>

fun tolist :: "ndarray \<Rightarrow> pyval" where
  "tolist (NdFloat r) = PyFloat r"
| "tolist (NdInt i) = PyInt i"
| "tolist (NdBool b) = PyBool b"
| "tolist (NdObject v) = v"
| "tolist (NdAxis xs) = PyList (map tolist xs)"

text \<open>
  \<^verbatim>\<open>prepare_data_for_json\<close>, lines 15 to 36: the five \<^verbatim>\<open>isinstance\<close> tests in the order
  of the source, then \<^verbatim>\<open>return data\<close> for every other object. The dictionary comprehension
  keeps each key and the list comprehension keeps the order. Line 34 returns the result of
  \<^verbatim>\<open>tolist\<close> without a recursive call on it.
\<close>

fun prepare_data_for_json :: "pyval \<Rightarrow> pyval" where
  "prepare_data_for_json (PyDict kvs) =
     PyDict (map (\<lambda>(k, v). (k, prepare_data_for_json v)) kvs)"
| "prepare_data_for_json (PyList xs) = PyList (map prepare_data_for_json xs)"
| "prepare_data_for_json (NpFloating w r) = PyFloat r"
| "prepare_data_for_json (NpInteger i) = PyInt i"
| "prepare_data_for_json (NpArray a) = tolist a"
| "prepare_data_for_json d = d"





section \<open>The request handler\<close>

text \<open>
  The three service clients and the trigger-word checker live in modules of their own
  (\<^verbatim>\<open>app.services\<close>, \<^verbatim>\<open>app.utils.safety_check\<close>); the handler is verified for every
  behaviour they can have. Each is a function from its arguments to the value it returns or
  the exception it raises. The checker returns a pair: whether a phrase was found, and the
  phrase.
\<close>

record services =
  analyze_audio :: "pyval \<Rightarrow> exn + pyval"
  analyze_video :: "pyval \<Rightarrow> exn + pyval"
  check_trigger_words :: "pyval \<Rightarrow> exn + bool \<times> pyval"
  call_openai_therapy_model :: "pyval \<Rightarrow> pyval \<Rightarrow> pyval \<Rightarrow> pyval \<Rightarrow> exn + pyval"

text \<open>
  What the handler does besides returning is calling the clients, so a run yields the calls
  it made, in order, next to its outcome.
\<close>

datatype call =
    CallAudio pyval
  | CallVideo pyval
  | CallTrigger pyval
  | CallModel pyval pyval pyval pyval

text \<open>
  \<^verbatim>\<open>jsonify\<close> renders its argument with \<^verbatim>\<open>json.dumps\<close>, which accepts None, booleans,
  integers, floats and the subclasses of \<^verbatim>\<open>float\<close>, strings, lists, tuples and
  dictionaries of these, and raises \<^verbatim>\<open>TypeError\<close> on any other object: a NumPy integer,
  boolean or array, and a NumPy float other than \<^verbatim>\<open>np.float64\<close>. A response is the
  payload that was rendered with the status code beside it.
\<close>

fun json_ok :: "pyval \<Rightarrow> bool" where
  "json_ok (PyList xs) = list_all json_ok xs"
| "json_ok (PyTuple xs) = list_all json_ok xs"
| "json_ok (PyDict kvs) = list_all (\<lambda>(k, v). json_ok v) kvs"
| "json_ok (NpFloating w r) = (w = Float64)"
| "json_ok (NpInteger i) = False"
| "json_ok (NpBool b) = False"
| "json_ok (NpArray a) = False"
| "json_ok d = True"

definition jsonify :: "pyval \<Rightarrow> exn + pyval" where
  "jsonify payload = (if json_ok payload then Inr payload else Inl TypeError)"

type_synonym response = "pyval \<times> nat"

type_synonym run = "call list \<times> (exn + response)"

text \<open>\<^verbatim>\<open>return jsonify(payload), status\<close> after the calls made so far.\<close>

definition respond :: "call list \<Rightarrow> pyval \<Rightarrow> nat \<Rightarrow> run" where
  "respond calls payload status =
     (case jsonify payload of
        Inl e \<Rightarrow> (calls, Inl e)
      | Inr body \<Rightarrow> (calls, Inr (body, status)))"

definition emergency_response :: "pyval \<Rightarrow> pyval \<Rightarrow> pyval \<Rightarrow> pyval" where
  "emergency_response assembly_data deepface_data word =
     PyDict [(''assemblyAI_output'', assembly_data),
             (''deepface_output'', deepface_data),
             (''bot_reply'', PyStr ''It sounds like you might be in distress. Please reach out to immediate help or call a trusted person right now. You're not alone.''),
             (''diagnostic_match'', PyBool False),
             (''conversation_type'', PyStr ''emergency''),
             (''diagnostic_mapping'', PyList []),
             (''emergency'', PyBool True),
             (''triggered_word'', word)]"

definition response_payload ::
  "pyval \<Rightarrow> pyval \<Rightarrow> (string \<times> pyval) list \<Rightarrow> bool \<Rightarrow> pyval" where
  "response_payload assembly_data deepface_data model_output diagnostic_match =
     PyDict [(''assemblyAI_output'', assembly_data),
             (''deepface_output'', deepface_data),
             (''bot_reply'', dict_get model_output ''bot_reply'' PyNone),
             (''diagnostic_match'', PyBool diagnostic_match),
             (''conversation_type'', dict_get model_output ''conversation_type'' (PyStr ''free_talk'')),
             (''diagnostic_mapping'', dict_get model_output ''diagnostic_mapping'' (PyDict [])),
             (''emergency'', PyBool False)]"

text \<open>
  Lines 65 to 102 of \<^verbatim>\<open>analyze_turn\<close>: the transcript check, the trigger-word check, the
  model call and the two payloads. \<^verbatim>\<open>.get\<close> on an object that is not a dictionary raises
  \<^verbatim>\<open>AttributeError\<close>. The value of \<^verbatim>\<open>diagnostic_match\<close>,
  \<^verbatim>\<open>False if not m else True\<close>, is the truth value of \<^verbatim>\<open>m\<close>.
\<close>

definition check_and_respond ::
  "services \<Rightarrow> pyval \<Rightarrow> pyval \<Rightarrow> pyval \<Rightarrow> pyval \<Rightarrow> run" where
  "check_and_respond S questionnaires past_turns assembly_data deepface_data =
     (case assembly_data of
        PyDict ad \<Rightarrow>
          (let transcript = dict_get ad ''transcript'' PyNone in
           case truthy transcript of
             Inl e \<Rightarrow> ([], Inl e)
           | Inr present \<Rightarrow>
               if \<not> present then
                 respond [] (PyDict [(''error'', PyStr ''Missing transcript'')]) 400
               else
                 (case check_trigger_words S transcript of
                    Inl e \<Rightarrow> ([CallTrigger transcript], Inl e)
                  | Inr (found_trigger, word) \<Rightarrow>
                      if found_trigger then
                        respond [CallTrigger transcript]
                          (emergency_response assembly_data deepface_data word) 200
                      else
                        (let calls = [CallTrigger transcript,
                               CallModel assembly_data deepface_data questionnaires past_turns] in
                         case call_openai_therapy_model S assembly_data deepface_data
                                questionnaires past_turns of
                           Inl e \<Rightarrow> (calls, Inl e)
                         | Inr model_output \<Rightarrow>
                             (case model_output of
                                PyDict mo \<Rightarrow>
                                  (case truthy (dict_get mo ''diagnostic_mapping'' PyNone) of
                                     Inl e \<Rightarrow> (calls, Inl e)
                                   | Inr diagnostic_match \<Rightarrow>
                                       respond calls
                                         (response_payload assembly_data deepface_data mo
                                            diagnostic_match) 200)
                              | _ \<Rightarrow> (calls, Inl AttributeError)))))
      | _ \<Rightarrow> ([], Inl AttributeError))"

text \<open>
  \<^verbatim>\<open>analyze_turn\<close>, lines 44 to 63, continued by \<open>check_and_respond\<close>. The argument is
  the parsed JSON body, \<^verbatim>\<open>request.get_json()\<close>.
\<close>

definition analyze_turn :: "services \<Rightarrow> pyval \<Rightarrow> run" where
  "analyze_turn S data =
     (case data of
        PyDict req \<Rightarrow>
          (let questionnaires = dict_get req ''questionnaires'' (PyDict []);
               past_turns = dict_get req ''past_turns'' (PyList []);
               video_file = dict_get req ''video_url'' (PyDict [])
           in case truthy video_file of
                Inl e \<Rightarrow> ([], Inl e)
              | Inr given \<Rightarrow>
                  if \<not> given then
                    respond [] (PyDict [(''error'', PyStr ''Missing video url'')]) 400
                  else
                    (case analyze_audio S video_file of
                       Inl e \<Rightarrow> ([CallAudio video_file], Inl e)
                     | Inr audio \<Rightarrow>
                         (case analyze_video S video_file of
                            Inl e \<Rightarrow> ([CallAudio video_file, CallVideo video_file], Inl e)
                          | Inr video \<Rightarrow>
                              (case check_and_respond S questionnaires past_turns
                                      (prepare_data_for_json audio)
                                      (prepare_data_for_json video) of
                                 (calls, outcome) \<Rightarrow>
                                   ([CallAudio video_file, CallVideo video_file] @ calls,
                                    outcome)))))
      | _ \<Rightarrow> ([], Inl AttributeError))"

text \<open>
  The handler the specification's design note describes: the same code with lines 61 and
  63 exchanged, so that the video analysis runs before the audio analysis.
\<close>

definition analyze_turn_swapped :: "services \<Rightarrow> pyval \<Rightarrow> run" where
  "analyze_turn_swapped S data =
     (case data of
        PyDict req \<Rightarrow>
          (let questionnaires = dict_get req ''questionnaires'' (PyDict []);
               past_turns = dict_get req ''past_turns'' (PyList []);
               video_file = dict_get req ''video_url'' (PyDict [])
           in case truthy video_file of
                Inl e \<Rightarrow> ([], Inl e)
              | Inr given \<Rightarrow>
                  if \<not> given then
                    respond [] (PyDict [(''error'', PyStr ''Missing video url'')]) 400
                  else
                    (case analyze_video S video_file of
                       Inl e \<Rightarrow> ([CallVideo video_file], Inl e)
                     | Inr video \<Rightarrow>
                         (case analyze_audio S video_file of
                            Inl e \<Rightarrow> ([CallVideo video_file, CallAudio video_file], Inl e)
                          | Inr audio \<Rightarrow>
                              (case check_and_respond S questionnaires past_turns
                                      (prepare_data_for_json audio)
                                      (prepare_data_for_json video) of
                                 (calls, outcome) \<Rightarrow>
                                   ([CallVideo video_file, CallAudio video_file] @ calls,
                                    outcome)))))
      | _ \<Rightarrow> ([], Inl AttributeError))"





section \<open>Sample data\<close>

text \<open>
  Clients with fixed answers and the requests of the specification's scenarios, used to run
  the handler on concrete inputs.
\<close>

definition phrase_check :: "pyval \<Rightarrow> exn + bool \<times> pyval" where
  "phrase_check t =
     Inr (if t = PyStr ''I want to end it all'' then (True, PyStr ''end it all'')
          else (False, PyStr []))"

definition fixed_services :: "exn + pyval \<Rightarrow> exn + pyval \<Rightarrow> exn + pyval \<Rightarrow> services" where
  "fixed_services audio video model =
     \<lparr>analyze_audio = (\<lambda>u. audio), analyze_video = (\<lambda>u. video),
      check_trigger_words = phrase_check,
      call_openai_therapy_model = (\<lambda>a v q p. model)\<rparr>"

definition distress_audio :: "(string \<times> pyval) list" where
  "distress_audio =
     [(''transcript'', PyStr ''I want to end it all''),
      (''confidence'', NpFloating Float64 (93 / 100))]"

definition calm_audio :: "(string \<times> pyval) list" where
  "calm_audio =
     [(''transcript'', PyStr ''I had a good day''),
      (''confidence'', NpFloating Float64 (97 / 100))]"

definition sample_video :: pyval where
  "sample_video =
     PyDict [(''dominant_emotion'', PyStr ''sad''),
             (''emotion'', PyDict [(''sad'', NpFloating Float32 (81 / 100))]),
             (''frames'', NpInteger 24)]"

definition flagged_video :: pyval where
  "flagged_video =
     PyDict [(''dominant_emotion'', PyStr ''sad''), (''face_detected'', NpBool True)]"


definition sample_model :: "(string \<times> pyval) list" where
  "sample_model = [(''bot_reply'', PyStr ''Glad to hear!''), (''diagnostic_mapping'', PyDict [])]"



definition sample_request :: "(string \<times> pyval) list" where
  "sample_request =
     [(''video_url'', PyStr ''clip.mp4''), (''questionnaires'', PyDict []),
      (''past_turns'', PyList [])]"

section \<open>Properties of the normalisation\<close>









section \<open>Properties of the handler\<close>

text \<open>
  The claims about responses describe runs in which the calls the handler makes return; what
  happens when one of them raises is the subject of claim C9.
\<close>

lemma dict_get_map:
  "dict_get (map (\<lambda>(k, v). (k, f v)) kvs) k dflt =
     (case map_of kvs k of Some v \<Rightarrow> f v | None \<Rightarrow> dflt)"
  by (simp add: dict_get_def map_of_map split: option.splits)



text \<open>
  Claim C1, as amended. A request passes validation when its \<^verbatim>\<open>video_url\<close> is truthy and
  the transcript in the normalised audio result is truthy. When the trigger-word check then
  reports a phrase, the calls of the run are the audio analysis, the video analysis and the
  trigger-word check: the therapy model is not called. The payload is the emergency one:
  the two normalised analysis results, the fixed distress reply, \<^verbatim>\<open>diagnostic_match\<close>
  false, \<^verbatim>\<open>conversation_type\<close> emergency, an empty \<^verbatim>\<open>diagnostic_mapping\<close>,
  \<^verbatim>\<open>emergency\<close> true and the reported phrase as \<^verbatim>\<open>triggered_word\<close>. The handler answers
  200 with it when it is JSON-serialisable; otherwise \<^verbatim>\<open>jsonify\<close> raises
  \<^verbatim>\<open>TypeError\<close> and there is no response. The claim as stated, a 200 for every such
  request, fails where an analysis result keeps a NumPy value through the normalisation.
\<close>

theorem emergency_on_trigger_phrase:
  assumes "video_file = dict_get req ''video_url'' (PyDict [])"
    and "truthy video_file = Inr True"
    and "analyze_audio S video_file = Inr (PyDict audio)"
    and "analyze_video S video_file = Inr video"
    and "map_of audio ''transcript'' = Some t"
    and "transcript = prepare_data_for_json t"
    and "truthy transcript = Inr True"
    and "check_trigger_words S transcript = Inr (True, word)"
    and "payload =
           PyDict [(''assemblyAI_output'', prepare_data_for_json (PyDict audio)),
                   (''deepface_output'', prepare_data_for_json video),
                   (''bot_reply'', PyStr ''It sounds like you might be in distress. Please reach out to immediate help or call a trusted person right now. You're not alone.''),
                   (''diagnostic_match'', PyBool False),
                   (''conversation_type'', PyStr ''emergency''),
                   (''diagnostic_mapping'', PyList []),
                   (''emergency'', PyBool True),
                   (''triggered_word'', word)]"
  shows "analyze_turn S (PyDict req) =
           ([CallAudio video_file, CallVideo video_file, CallTrigger transcript],
            if json_ok payload then Inr (payload, 200) else Inl TypeError)"
  using assms
  by (simp add: analyze_turn_def check_and_respond_def dict_get_map emergency_response_def
      respond_def jsonify_def Let_def)

theorem emergency_on_trigger_phrase_witness:
  "analyze_turn
     (fixed_services (Inr (PyDict distress_audio)) (Inr sample_video)
        (Inl (ServiceError ''unreachable'')))
     (PyDict sample_request) =
   ([CallAudio (PyStr ''clip.mp4''), CallVideo (PyStr ''clip.mp4''),
     CallTrigger (PyStr ''I want to end it all'')],
    Inr (PyDict [(''assemblyAI_output'',
                    PyDict [(''transcript'', PyStr ''I want to end it all''),
                            (''confidence'', PyFloat (93 / 100))]),
                 (''deepface_output'',
                    PyDict [(''dominant_emotion'', PyStr ''sad''),
                            (''emotion'', PyDict [(''sad'', PyFloat (81 / 100))]),
                            (''frames'', PyInt 24)]),
                 (''bot_reply'', PyStr ''It sounds like you might be in distress. Please reach out to immediate help or call a trusted person right now. You're not alone.''),
                 (''diagnostic_match'', PyBool False),
                 (''conversation_type'', PyStr ''emergency''),
                 (''diagnostic_mapping'', PyList []),
                 (''emergency'', PyBool True),
                 (''triggered_word'', PyStr ''end it all'')], 200))"
proof -
  define payload where "payload =
     PyDict [(''assemblyAI_output'', prepare_data_for_json (PyDict distress_audio)),
             (''deepface_output'', prepare_data_for_json sample_video),
             (''bot_reply'', PyStr ''It sounds like you might be in distress. Please reach out to immediate help or call a trusted person right now. You're not alone.''),
             (''diagnostic_match'', PyBool False),
             (''conversation_type'', PyStr ''emergency''),
             (''diagnostic_mapping'', PyList []),
             (''emergency'', PyBool True),
             (''triggered_word'', PyStr ''end it all'')]"
  have "analyze_turn
          (fixed_services (Inr (PyDict distress_audio)) (Inr sample_video)
             (Inl (ServiceError ''unreachable'')))
          (PyDict sample_request) =
        ([CallAudio (PyStr ''clip.mp4''), CallVideo (PyStr ''clip.mp4''),
          CallTrigger (PyStr ''I want to end it all'')],
         if json_ok payload then Inr (payload, 200) else Inl TypeError)"
    by (rule emergency_on_trigger_phrase
          [where t = "PyStr ''I want to end it all''" and audio = distress_audio
             and video = sample_video and word = "PyStr ''end it all''"])
       (simp_all add: fixed_services_def sample_request_def distress_audio_def dict_get_def
          phrase_check_def payload_def)
  then show ?thesis by (simp add: payload_def distress_audio_def sample_video_def)
qed

theorem emergency_on_trigger_phrase_counterexample:
  "analyze_turn
     (fixed_services (Inr (PyDict distress_audio)) (Inr flagged_video)
        (Inl (ServiceError ''unreachable'')))
     (PyDict sample_request) =
   ([CallAudio (PyStr ''clip.mp4''), CallVideo (PyStr ''clip.mp4''),
     CallTrigger (PyStr ''I want to end it all'')],
    Inl TypeError)"
  by (simp add: analyze_turn_def check_and_respond_def emergency_response_def respond_def
      jsonify_def fixed_services_def sample_request_def distress_audio_def flagged_video_def
      dict_get_def phrase_check_def Let_def)




text \<open>
  Claim C3. When the \<^verbatim>\<open>video_url\<close> field of the request is absent, null or the empty
  string, the handler answers 400 with the body \<^verbatim>\<open>{"error": "Missing video url"}\<close> and
  the run makes no call to any client.
\<close>

theorem missing_video_url:
  assumes "map_of req ''video_url'' = None \<or> map_of req ''video_url'' = Some PyNone
           \<or> map_of req ''video_url'' = Some (PyStr [])"
  shows "analyze_turn S (PyDict req) =
           ([], Inr (PyDict [(''error'', PyStr ''Missing video url'')], 400))"
  using assms by (auto simp: analyze_turn_def dict_get_def respond_def jsonify_def)

theorem missing_video_url_witness:
  "map_of [(''video_url'', PyStr []), (''questionnaires'', PyDict []),
           (''past_turns'', PyList [])] ''video_url'' = Some (PyStr [])
   \<and> analyze_turn
         (fixed_services (Inr (PyDict calm_audio)) (Inr sample_video)
            (Inr (PyDict sample_model)))
         (PyDict [(''video_url'', PyStr []), (''questionnaires'', PyDict []),
                  (''past_turns'', PyList [])]) =
       ([], Inr (PyDict [(''error'', PyStr ''Missing video url'')], 400))"
proof -
  have "map_of [(''video_url'', PyStr []), (''questionnaires'', PyDict []),
                (''past_turns'', PyList [])] ''video_url'' = Some (PyStr [])"
    by simp
  with missing_video_url show ?thesis by blast
qed

text \<open>
  Claim C4. When the \<^verbatim>\<open>video_url\<close> is truthy, the audio analysis returns a mapping with
  no \<^verbatim>\<open>transcript\<close> key and the video analysis returns, the handler answers 400 with the
  body \<^verbatim>\<open>{"error": "Missing transcript"}\<close>. The calls of the run are the two analyses:
  the therapy model is not called.
\<close>

theorem missing_transcript_key:
  assumes "video_file = dict_get req ''video_url'' (PyDict [])"
    and "truthy video_file = Inr True"
    and "analyze_audio S video_file = Inr (PyDict audio)"
    and "map_of audio ''transcript'' = None"
    and "analyze_video S video_file = Inr video"
  shows "analyze_turn S (PyDict req) =
           ([CallAudio video_file, CallVideo video_file],
            Inr (PyDict [(''error'', PyStr ''Missing transcript'')], 400))"
  using assms
  by (simp add: analyze_turn_def check_and_respond_def dict_get_map respond_def jsonify_def
      Let_def)

theorem missing_transcript_key_witness:
  "analyze_turn
     (fixed_services (Inr (PyDict [(''confidence'', NpFloating Float64 (1 / 2))]))
        (Inr sample_video) (Inr (PyDict sample_model)))
     (PyDict sample_request) =
   ([CallAudio (PyStr ''clip.mp4''), CallVideo (PyStr ''clip.mp4'')],
    Inr (PyDict [(''error'', PyStr ''Missing transcript'')], 400))"
  by (rule missing_transcript_key
        [where audio = "[(''confidence'', NpFloating Float64 (1 / 2))]"
           and video = sample_video])
     (simp_all add: fixed_services_def sample_request_def dict_get_def)

text \<open>
  Claim C10. The transcript check tests the truth value of the transcript, not the presence
  of the key: when the audio result has a \<^verbatim>\<open>transcript\<close> key whose normalised value is
  falsy (the empty string, None, zero, an empty list or mapping), the handler answers 400
  with the body \<^verbatim>\<open>{"error": "Missing transcript"}\<close> as well.
\<close>

theorem falsy_transcript_rejected:
  assumes "video_file = dict_get req ''video_url'' (PyDict [])"
    and "truthy video_file = Inr True"
    and "analyze_audio S video_file = Inr (PyDict audio)"
    and "map_of audio ''transcript'' = Some t"
    and "truthy (prepare_data_for_json t) = Inr False"
    and "analyze_video S video_file = Inr video"
  shows "analyze_turn S (PyDict req) =
           ([CallAudio video_file, CallVideo video_file],
            Inr (PyDict [(''error'', PyStr ''Missing transcript'')], 400))"
  using assms
  by (simp add: analyze_turn_def check_and_respond_def dict_get_map respond_def jsonify_def
      Let_def)

theorem falsy_transcript_rejected_witness:
  "analyze_turn
     (fixed_services (Inr (PyDict [(''transcript'', PyStr [])])) (Inr sample_video)
        (Inr (PyDict sample_model)))
     (PyDict sample_request) =
   ([CallAudio (PyStr ''clip.mp4''), CallVideo (PyStr ''clip.mp4'')],
    Inr (PyDict [(''error'', PyStr ''Missing transcript'')], 400))
   \<and> analyze_turn
     (fixed_services (Inr (PyDict [(''transcript'', PyNone)])) (Inr sample_video)
        (Inr (PyDict sample_model)))
     (PyDict sample_request) =
   ([CallAudio (PyStr ''clip.mp4''), CallVideo (PyStr ''clip.mp4'')],
    Inr (PyDict [(''error'', PyStr ''Missing transcript'')], 400))"
proof
  show "analyze_turn
     (fixed_services (Inr (PyDict [(''transcript'', PyStr [])])) (Inr sample_video)
        (Inr (PyDict sample_model)))
     (PyDict sample_request) =
   ([CallAudio (PyStr ''clip.mp4''), CallVideo (PyStr ''clip.mp4'')],
    Inr (PyDict [(''error'', PyStr ''Missing transcript'')], 400))"
    by (rule falsy_transcript_rejected
          [where t = "PyStr []" and audio = "[(''transcript'', PyStr [])]"
             and video = sample_video])
       (simp_all add: fixed_services_def sample_request_def dict_get_def)
  show "analyze_turn
     (fixed_services (Inr (PyDict [(''transcript'', PyNone)])) (Inr sample_video)
        (Inr (PyDict sample_model)))
     (PyDict sample_request) =
   ([CallAudio (PyStr ''clip.mp4''), CallVideo (PyStr ''clip.mp4'')],
    Inr (PyDict [(''error'', PyStr ''Missing transcript'')], 400))"
    by (rule falsy_transcript_rejected
          [where t = PyNone and audio = "[(''transcript'', PyNone)]"
             and video = sample_video])
       (simp_all add: fixed_services_def sample_request_def dict_get_def)
qed




text \<open>
  Claim C8. The two analysis calls do not depend on each other: for every request and all
  results the two clients return, the handler with the two calls exchanged ends with the
  same outcome as the handler itself, and the two runs make the same calls.
\<close>

theorem analysis_order_irrelevant:
  assumes "\<And>u. analyze_audio S u = Inr (audio u)"
    and "\<And>u. analyze_video S u = Inr (video u)"
  shows "snd (analyze_turn_swapped S data) = snd (analyze_turn S data)
         \<and> set (fst (analyze_turn_swapped S data)) = set (fst (analyze_turn S data))"
  using assms
  by (cases data)
     (auto simp add: analyze_turn_def analyze_turn_swapped_def Let_def
        split: sum.splits prod.splits)

theorem analysis_order_irrelevant_witness:
  "snd (analyze_turn_swapped
          (fixed_services (Inr (PyDict calm_audio)) (Inr sample_video)
             (Inr (PyDict sample_model)))
          (PyDict sample_request)) =
   snd (analyze_turn
          (fixed_services (Inr (PyDict calm_audio)) (Inr sample_video)
             (Inr (PyDict sample_model)))
          (PyDict sample_request))
   \<and> set (fst (analyze_turn_swapped
          (fixed_services (Inr (PyDict calm_audio)) (Inr sample_video)
             (Inr (PyDict sample_model)))
          (PyDict sample_request))) =
     set (fst (analyze_turn
          (fixed_services (Inr (PyDict calm_audio)) (Inr sample_video)
             (Inr (PyDict sample_model)))
          (PyDict sample_request)))"
  by (rule analysis_order_irrelevant
        [where audio = "\<lambda>u. PyDict calm_audio" and video = "\<lambda>u. sample_video"])
     (simp_all add: fixed_services_def)

text \<open>
  Claim C9. Take a request with a truthy \<^verbatim>\<open>video_url\<close>. If the audio analysis raises an
  exception, the run ends with that exception after this one call. If the audio analysis
  returns and the video analysis raises, the run ends with that exception after these two
  calls. If both analyses return, the transcript is truthy, the trigger-word check reports
  no phrase and the therapy model raises, the run ends with that exception after the four
  calls. In each case the outcome is the exception itself, whatever it is: it is not caught
  and not turned into a 400 or any other response, and no call is made twice or made after
  the one that raised.
\<close>

theorem service_exception_propagates:
  assumes "video_file = dict_get req ''video_url'' (PyDict [])"
    and "truthy video_file = Inr True"
  shows "(analyze_audio S video_file = Inl e \<longrightarrow>
            analyze_turn S (PyDict req) = ([CallAudio video_file], Inl e))
       \<and> (analyze_audio S video_file = Inr audio_result
            \<and> analyze_video S video_file = Inl e \<longrightarrow>
            analyze_turn S (PyDict req) =
              ([CallAudio video_file, CallVideo video_file], Inl e))
       \<and> (analyze_audio S video_file = Inr (PyDict audio)
            \<and> analyze_video S video_file = Inr video
            \<and> map_of audio ''transcript'' = Some t
            \<and> truthy (prepare_data_for_json t) = Inr True
            \<and> check_trigger_words S (prepare_data_for_json t) = Inr (False, word)
            \<and> call_openai_therapy_model S (prepare_data_for_json (PyDict audio))
                 (prepare_data_for_json video) (dict_get req ''questionnaires'' (PyDict []))
                 (dict_get req ''past_turns'' (PyList [])) = Inl e \<longrightarrow>
            analyze_turn S (PyDict req) =
              ([CallAudio video_file, CallVideo video_file,
                CallTrigger (prepare_data_for_json t),
                CallModel (prepare_data_for_json (PyDict audio)) (prepare_data_for_json video)
                  (dict_get req ''questionnaires'' (PyDict []))
                  (dict_get req ''past_turns'' (PyList []))],
               Inl e))"
proof (intro conjI impI)
  assume "analyze_audio S video_file = Inl e"
  with assms show "analyze_turn S (PyDict req) = ([CallAudio video_file], Inl e)"
    by (simp add: analyze_turn_def Let_def)
next
  assume "analyze_audio S video_file = Inr audio_result
          \<and> analyze_video S video_file = Inl e"
  with assms show "analyze_turn S (PyDict req) =
                     ([CallAudio video_file, CallVideo video_file], Inl e)"
    by (simp add: analyze_turn_def Let_def)
next
  assume "analyze_audio S video_file = Inr (PyDict audio)
            \<and> analyze_video S video_file = Inr video
            \<and> map_of audio ''transcript'' = Some t
            \<and> truthy (prepare_data_for_json t) = Inr True
            \<and> check_trigger_words S (prepare_data_for_json t) = Inr (False, word)
            \<and> call_openai_therapy_model S (prepare_data_for_json (PyDict audio))
                 (prepare_data_for_json video) (dict_get req ''questionnaires'' (PyDict []))
                 (dict_get req ''past_turns'' (PyList [])) = Inl e"
  with assms show "analyze_turn S (PyDict req) =
              ([CallAudio video_file, CallVideo video_file,
                CallTrigger (prepare_data_for_json t),
                CallModel (prepare_data_for_json (PyDict audio)) (prepare_data_for_json video)
                  (dict_get req ''questionnaires'' (PyDict []))
                  (dict_get req ''past_turns'' (PyList []))],
               Inl e)"
    by (simp add: analyze_turn_def check_and_respond_def dict_get_map Let_def)
qed

theorem service_exception_propagates_witness:
  "analyze_turn
     (fixed_services (Inl ValueError) (Inr sample_video) (Inr (PyDict sample_model)))
     (PyDict sample_request) = ([CallAudio (PyStr ''clip.mp4'')], Inl ValueError)
   \<and> analyze_turn
     (fixed_services (Inr (PyDict calm_audio)) (Inl AttributeError)
        (Inr (PyDict sample_model)))
     (PyDict sample_request) =
       ([CallAudio (PyStr ''clip.mp4''), CallVideo (PyStr ''clip.mp4'')], Inl AttributeError)
   \<and> analyze_turn
     (fixed_services (Inr (PyDict calm_audio)) (Inr sample_video)
        (Inl (ServiceError ''rate limit'')))
     (PyDict sample_request) =
       ([CallAudio (PyStr ''clip.mp4''), CallVideo (PyStr ''clip.mp4''),
         CallTrigger (PyStr ''I had a good day''),
         CallModel
           (PyDict [(''transcript'', PyStr ''I had a good day''),
                    (''confidence'', PyFloat (97 / 100))])
           (PyDict [(''dominant_emotion'', PyStr ''sad''),
                    (''emotion'', PyDict [(''sad'', PyFloat (81 / 100))]),
                    (''frames'', PyInt 24)])
           (PyDict []) (PyList [])],
        Inl (ServiceError ''rate limit''))"
proof (intro conjI)
  let ?S = "fixed_services (Inl ValueError) (Inr sample_video) (Inr (PyDict sample_model))"
  have "analyze_audio ?S (PyStr ''clip.mp4'') = Inl ValueError \<longrightarrow>
          analyze_turn ?S (PyDict sample_request) =
            ([CallAudio (PyStr ''clip.mp4'')], Inl ValueError)"
    using service_exception_propagates
            [where S = ?S and req = sample_request and video_file = "PyStr ''clip.mp4''"
               and e = ValueError]
    by (simp add: sample_request_def dict_get_def)
  then show "analyze_turn ?S (PyDict sample_request) =
               ([CallAudio (PyStr ''clip.mp4'')], Inl ValueError)"
    by (simp add: fixed_services_def)
next
  let ?S = "fixed_services (Inr (PyDict calm_audio)) (Inl AttributeError)
              (Inr (PyDict sample_model))"
  have "analyze_audio ?S (PyStr ''clip.mp4'') = Inr (PyDict calm_audio)
          \<and> analyze_video ?S (PyStr ''clip.mp4'') = Inl AttributeError \<longrightarrow>
          analyze_turn ?S (PyDict sample_request) =
            ([CallAudio (PyStr ''clip.mp4''), CallVideo (PyStr ''clip.mp4'')],
             Inl AttributeError)"
    using service_exception_propagates
            [where S = ?S and req = sample_request and video_file = "PyStr ''clip.mp4''"
               and e = AttributeError and audio_result = "PyDict calm_audio"]
    by (simp add: sample_request_def dict_get_def)
  then show "analyze_turn ?S (PyDict sample_request) =
               ([CallAudio (PyStr ''clip.mp4''), CallVideo (PyStr ''clip.mp4'')],
                Inl AttributeError)"
    by (simp add: fixed_services_def)
next
  let ?S = "fixed_services (Inr (PyDict calm_audio)) (Inr sample_video)
              (Inl (ServiceError ''rate limit''))"
  have "analyze_audio ?S (PyStr ''clip.mp4'') = Inr (PyDict calm_audio)
          \<and> analyze_video ?S (PyStr ''clip.mp4'') = Inr sample_video
          \<and> map_of calm_audio ''transcript'' = Some (PyStr ''I had a good day'')
          \<and> truthy (prepare_data_for_json (PyStr ''I had a good day'')) = Inr True
          \<and> check_trigger_words ?S (prepare_data_for_json (PyStr ''I had a good day'')) =
              Inr (False, PyStr [])
          \<and> call_openai_therapy_model ?S (prepare_data_for_json (PyDict calm_audio))
               (prepare_data_for_json sample_video)
               (dict_get sample_request ''questionnaires'' (PyDict []))
               (dict_get sample_request ''past_turns'' (PyList [])) =
              Inl (ServiceError ''rate limit'') \<longrightarrow>
          analyze_turn ?S (PyDict sample_request) =
            ([CallAudio (PyStr ''clip.mp4''), CallVideo (PyStr ''clip.mp4''),
              CallTrigger (prepare_data_for_json (PyStr ''I had a good day'')),
              CallModel (prepare_data_for_json (PyDict calm_audio))
                (prepare_data_for_json sample_video)
                (dict_get sample_request ''questionnaires'' (PyDict []))
                (dict_get sample_request ''past_turns'' (PyList []))],
             Inl (ServiceError ''rate limit''))"
    using service_exception_propagates
            [where S = ?S and req = sample_request and video_file = "PyStr ''clip.mp4''"
               and e = "ServiceError ''rate limit''" and audio = calm_audio
               and video = sample_video and t = "PyStr ''I had a good day''"
               and word = "PyStr []"]
    by (simp add: sample_request_def dict_get_def)
  then show "analyze_turn ?S (PyDict sample_request) =
       ([CallAudio (PyStr ''clip.mp4''), CallVideo (PyStr ''clip.mp4''),
         CallTrigger (PyStr ''I had a good day''),
         CallModel
           (PyDict [(''transcript'', PyStr ''I had a good day''),
                    (''confidence'', PyFloat (97 / 100))])
           (PyDict [(''dominant_emotion'', PyStr ''sad''),
                    (''emotion'', PyDict [(''sad'', PyFloat (81 / 100))]),
                    (''frames'', PyInt 24)])
           (PyDict []) (PyList [])],
        Inl (ServiceError ''rate limit''))"
    by (simp add: fixed_services_def calm_audio_def sample_video_def sample_request_def
        dict_get_def phrase_check_def)
qed

end
